theory Spec2Isabelle
  imports Main
begin

section \<open>The Manila controller of csi-driver-manila-operator\<close>

text \<open>
  A shallow embedding of \<^verbatim>\<open>pkg/controllers/manila/manila.go\<close>: the sync function of the
  controller, the reconciliation of one storage class per Manila share type, and the two
  condition transitions. The controller talks to four collaborators (the operator's status
  store, the OpenStack client, the storage-class lister and the Kubernetes API); they are
  modelled as one record, \<open>world\<close>, that every function takes and returns.
\<close>

subsection \<open>Errors\<close>

text \<open>
  A Go \<^verbatim>\<open>error\<close> is \<open>err option\<close>, \<open>None\<close> being \<^verbatim>\<open>nil\<close>. The source tells three
  kinds of error apart: \<^verbatim>\<open>*gophercloud.ErrEndpointNotFound\<close> (type switch in \<^verbatim>\<open>sync\<close>),
  a Kubernetes status error with reason NotFound (\<^verbatim>\<open>apierrors.IsNotFound\<close>), and the
  aggregate built by \<^verbatim>\<open>errors.NewAggregate\<close>. Every other error is \<open>ErrOther\<close>.
\<close>

datatype err =
    ErrEndpointNotFound
  | StatusNotFound
  | ErrOther string
  | Aggregate "err list"

fun IsNotFound :: "err \<Rightarrow> bool" where
  "IsNotFound StatusNotFound = True"
| "IsNotFound _ = False"

definition NewAggregate :: "err list \<Rightarrow> err option" where
  \<comment> \<open>\<^verbatim>\<open>errors.NewAggregate\<close> (k8s.io/apimachinery): nil for an empty list, otherwise one
      error that holds the list. The list never holds a nil here, by its type.\<close>
  "NewAggregate errlist = (if length errlist = 0 then None else Some (Aggregate errlist))"

subsection \<open>Data\<close>

text \<open>
  Of \<^verbatim>\<open>sharetypes.ShareType\<close> the controller reads the name only. A Go
  \<^verbatim>\<open>map[string]string\<close> is a map \<open>string \<rightharpoonup> string\<close>; where the source compares two of them
  with \<^verbatim>\<open>reflect.DeepEqual\<close>, which tells a nil map from an empty one, the field is an
  \<open>option\<close> of a map and \<open>None\<close> is the nil map, so that HOL equality is deep equality.
  \<^verbatim>\<open>metav1.ObjectMeta\<close> is cut down to the fields that identify and annotate an object.
\<close>

record ShareType =
  ShareTypeID :: string
  ShareTypeName :: string

record ObjectMeta =
  Name :: string
  Namespace :: string
  Labels :: "string \<rightharpoonup> string"
  Annotations :: "string \<rightharpoonup> string"

record StorageClass =
  ObjectMeta :: ObjectMeta
  Provisioner :: string
  Parameters :: "(string \<rightharpoonup> string) option"

record OperatorCondition =
  Type :: string
  Status :: string
  Reason :: string
  Message :: string

text \<open>
  The constants of the package \<^verbatim>\<open>pkg/util\<close> that \<^verbatim>\<open>generateStorageClass\<close> reads. Their
  values are not part of \<^verbatim>\<open>manila.go\<close>; every function that needs them takes them as
  the parameter \<open>u\<close>.
\<close>

record util =
  StorageClassNamePrefix :: string
  ManilaSecretName :: string
  OperatorNamespace :: string

definition Managed :: string where
  \<comment> \<open>\<^verbatim>\<open>operatorv1.Managed\<close>\<close>
  "Managed = ''Managed''"

definition ConditionTrue :: string where
  \<comment> \<open>\<^verbatim>\<open>operatorv1.ConditionTrue\<close>\<close>
  "ConditionTrue = ''True''"

definition OperatorStatusTypeAvailable :: string where
  \<comment> \<open>\<^verbatim>\<open>operatorv1.OperatorStatusTypeAvailable\<close>\<close>
  "OperatorStatusTypeAvailable = ''Available''"

definition operatorConditionPrefix :: string where
  "operatorConditionPrefix = ''ManilaController''"

subsection \<open>The collaborators\<close>

text \<open>
  Every call that leaves the controller is written to \<open>calls\<close>, in order. What a read
  returns is a field of the world: \<open>operatorState\<close> for \<^verbatim>\<open>GetOperatorState\<close> (an error,
  or the management state), \<open>shareTypes\<close> for \<^verbatim>\<open>GetShareTypes\<close>, \<open>lister\<close> for the
  lister's \<^verbatim>\<open>Get\<close>. The lister is a cache of its own, which may lag behind \<open>api\<close>, the
  objects the API server holds. A write (delete, create, update of a storage class, update
  of the operator status) can fail for reasons outside the controller: \<open>faults w n\<close> is the
  error, if any, with which the call made when \<open>n\<close> calls have been logged fails; a
  write that fails changes nothing. The helpers of library-go that the controller calls
  (\<^verbatim>\<open>resourceapply\<close>, \<^verbatim>\<open>resourcemerge\<close>, \<^verbatim>\<open>v1helpers\<close>) are not in \<^verbatim>\<open>manila.go\<close>
  either; each is modelled after the specification, as its definition says.
\<close>

datatype call =
    CallGetOperatorState
  | CallGetShareTypes
  | CallListerGet string
  | CallDelete string
  | CallCreate StorageClass
  | CallUpdate StorageClass
  | CallUpdateStatus

record world =
  operatorState :: "err + string"
  conditions :: "OperatorCondition list"
  shareTypes :: "err + ShareType list"
  lister :: "string \<Rightarrow> err + StorageClass"
  api :: "string \<rightharpoonup> StorageClass"
  faults :: "nat \<Rightarrow> err option"
  calls :: "call list"

definition invoke :: "world \<Rightarrow> call \<Rightarrow> err option \<times> world" where
  "invoke w c = (faults w (length (calls w)), w\<lparr>calls := calls w @ [c]\<rparr>)"

definition GetOperatorState :: "world \<Rightarrow> (err + string) \<times> world" where
  "GetOperatorState w = (operatorState w, w\<lparr>calls := calls w @ [CallGetOperatorState]\<rparr>)"

definition GetShareTypes :: "world \<Rightarrow> (err + ShareType list) \<times> world" where
  \<comment> \<open>\<^verbatim>\<open>openStackClient.GetShareTypes\<close> is not part of \<^verbatim>\<open>manila.go\<close>: what it returns,
      an error or the list of share types, is taken as given.\<close>
  "GetShareTypes w = (shareTypes w, w\<lparr>calls := calls w @ [CallGetShareTypes]\<rparr>)"

definition Lister_Get :: "world \<Rightarrow> string \<Rightarrow> (err + StorageClass) \<times> world" where
  "Lister_Get w n = (lister w n, w\<lparr>calls := calls w @ [CallListerGet n]\<rparr>)"

definition StorageClasses_Delete :: "world \<Rightarrow> string \<Rightarrow> err option \<times> world" where
  \<comment> \<open>\<^verbatim>\<open>kubeClient.StorageV1().StorageClasses().Delete\<close>: NotFound when the API server
      has no object of that name.\<close>
  "StorageClasses_Delete w n =
     (case invoke w (CallDelete n) of
        (Some e, w') \<Rightarrow> (Some e, w')
      | (None, w') \<Rightarrow>
          (case api w' n of
             None \<Rightarrow> (Some StatusNotFound, w')
           | Some _ \<Rightarrow> (None, w'\<lparr>api := (api w')(n := None)\<rparr>)))"

definition EnsureObjectMeta :: "ObjectMeta \<Rightarrow> ObjectMeta \<Rightarrow> ObjectMeta" where
  \<comment> \<open>Modelled from the spec: \<^verbatim>\<open>resourcemerge.EnsureObjectMeta\<close> belongs to library-go and
      is not under src/. Spec 4.3, step 5b: fields present on the observed object that are
      not explicitly set by the desired object are carried over; fields explicitly set by
      the desired object win. A string field is set when it is not empty, a key of a map
      when the map has it.\<close>
  "EnsureObjectMeta existing required =
     \<lparr>Name = (if Name required \<noteq> [] then Name required else Name existing),
      Namespace = (if Namespace required \<noteq> [] then Namespace required else Namespace existing),
      Labels = Labels existing ++ Labels required,
      Annotations = Annotations existing ++ Annotations required\<rparr>"

definition ApplyStorageClass :: "world \<Rightarrow> StorageClass \<Rightarrow> err option \<times> world" where
  \<comment> \<open>Modelled from the spec: \<^verbatim>\<open>resourceapply.ApplyStorageClass\<close> belongs to library-go and
      is not under src/. Spec 4.3 steps 3 and 4 and section 6: the idempotent
      apply-or-update of the resource store, which creates the object when the API server
      has none of that name, and otherwise issues an update that keeps the object and may
      touch its metadata only.\<close>
  "ApplyStorageClass w required =
     (case api w (Name (ObjectMeta required)) of
        None \<Rightarrow>
          (case invoke w (CallCreate required) of
             (Some e, w') \<Rightarrow> (Some e, w')
           | (None, w') \<Rightarrow> (None, w'\<lparr>api := (api w')(Name (ObjectMeta required) \<mapsto> required)\<rparr>))
      | Some existing \<Rightarrow>
          (let ensured = existing\<lparr>ObjectMeta := EnsureObjectMeta (ObjectMeta existing) (ObjectMeta required)\<rparr>
           in case invoke w (CallUpdate ensured) of
                (Some e, w') \<Rightarrow> (Some e, w')
              | (None, w') \<Rightarrow> (None, w'\<lparr>api := (api w')(Name (ObjectMeta required) \<mapsto> ensured)\<rparr>)))"

fun SetOperatorCondition :: "OperatorCondition list \<Rightarrow> OperatorCondition \<Rightarrow> OperatorCondition list" where
  \<comment> \<open>Modelled from the spec: \<^verbatim>\<open>v1helpers.SetOperatorCondition\<close> (behind
      \<^verbatim>\<open>UpdateConditionFn\<close>) belongs to library-go and is not under src/. Spec section 9:
      "set" is insert-or-replace by the condition's type.\<close>
  "SetOperatorCondition [] newCondition = [newCondition]"
| "SetOperatorCondition (c # cs) newCondition =
     (if Type c = Type newCondition then newCondition # cs
      else c # SetOperatorCondition cs newCondition)"

definition RemoveOperatorCondition :: "OperatorCondition list \<Rightarrow> string \<Rightarrow> OperatorCondition list" where
  \<comment> \<open>Modelled from the spec: \<^verbatim>\<open>v1helpers.RemoveOperatorCondition\<close> belongs to library-go
      and is not under src/. Spec section 9: "remove" is delete by the condition's type.\<close>
  "RemoveOperatorCondition cs conditionType = filter (\<lambda>c. Type c \<noteq> conditionType) cs"

definition UpdateConditionFn :: "OperatorCondition \<Rightarrow> OperatorCondition list \<Rightarrow> OperatorCondition list" where
  "UpdateConditionFn cnd = (\<lambda>oldStatus. SetOperatorCondition oldStatus cnd)"

definition UpdateStatus ::
  "world \<Rightarrow> (OperatorCondition list \<Rightarrow> OperatorCondition list) list \<Rightarrow> err option \<times> world" where
  \<comment> \<open>Modelled from the spec: \<^verbatim>\<open>v1helpers.UpdateStatus\<close> belongs to library-go and is not
      under src/. Spec section 6: one atomic conditional update of the conditions, which
      applies the update functions in order, or fails and changes nothing.\<close>
  "UpdateStatus w updateFuncs =
     (case invoke w CallUpdateStatus of
        (Some e, w') \<Rightarrow> (Some e, w')
      | (None, w') \<Rightarrow> (None, w'\<lparr>conditions := fold (\<lambda>f cs. f cs) updateFuncs (conditions w')\<rparr>))"

definition FindOperatorCondition :: "OperatorCondition list \<Rightarrow> string \<Rightarrow> OperatorCondition option" where
  \<comment> \<open>How a reader of the status looks a condition up: the first one of that type.\<close>
  "FindOperatorCondition cs conditionType = find (\<lambda>c. Type c = conditionType) cs"

definition IsOperatorConditionTrue :: "OperatorCondition list \<Rightarrow> string \<Rightarrow> bool" where
  "IsOperatorConditionTrue cs conditionType =
     (case FindOperatorCondition cs conditionType of
        None \<Rightarrow> False
      | Some c \<Rightarrow> Status c = ConditionTrue)"

subsection \<open>The controller\<close>

text \<open>
  The private state of the controller. A \<^verbatim>\<open>Runnable\<close> is known by its name.
  \<^verbatim>\<open>go ctrl.Run(ctx, 1)\<close> starts a goroutine that \<^verbatim>\<open>sync\<close> never joins; the model records
  the start, the controller and its number of workers, in \<open>goroutines\<close>.
\<close>

type_synonym Runnable = string

record Controller =
  csiControllers :: "Runnable list"
  controllersRunning :: bool
  goroutines :: "(Runnable \<times> nat) list"

definition removeConditionFn :: "string \<Rightarrow> OperatorCondition list \<Rightarrow> OperatorCondition list" where
  "removeConditionFn cnd = (\<lambda>oldStatus. RemoveOperatorCondition oldStatus cnd)"

definition setEnabled :: "world \<Rightarrow> err option \<times> world" where
  "setEnabled w =
     (let availableCnd =
            \<lparr>Type = operatorConditionPrefix @ OperatorStatusTypeAvailable,
             Status = ConditionTrue, Reason = [], Message = []\<rparr>
      in UpdateStatus w
           [UpdateConditionFn availableCnd,
            removeConditionFn (operatorConditionPrefix @ ''Disabled'')])"

definition setDisabled :: "world \<Rightarrow> string \<Rightarrow> err option \<times> world" where
  "setDisabled w msg =
     (let disabledCnd =
            \<lparr>Type = operatorConditionPrefix @ ''Disabled'',
             Status = ConditionTrue, Reason = ''NoManila'', Message = msg\<rparr>
      in UpdateStatus w
           [UpdateConditionFn disabledCnd,
            removeConditionFn (operatorConditionPrefix @ OperatorStatusTypeAvailable)])"

definition generateStorageClass :: "util \<Rightarrow> ShareType \<Rightarrow> StorageClass" where
  "generateStorageClass u shareType =
     (let storageClassName = StorageClassNamePrefix u @ ShareTypeName shareType
      in \<lparr>ObjectMeta = \<lparr>Name = storageClassName, Namespace = [],
                  Labels = Map.empty, Annotations = Map.empty\<rparr>,
          Provisioner = ''manila.csi.openstack.org'',
          Parameters = Some
            [''type'' \<mapsto> ShareTypeName shareType,
             ''csi.storage.k8s.io/provisioner-secret-name'' \<mapsto> ManilaSecretName u,
             ''csi.storage.k8s.io/provisioner-secret-namespace'' \<mapsto> OperatorNamespace u,
             ''csi.storage.k8s.io/node-stage-secret-name'' \<mapsto> ManilaSecretName u,
             ''csi.storage.k8s.io/node-stage-secret-namespace'' \<mapsto> OperatorNamespace u,
             ''csi.storage.k8s.io/node-publish-secret-name'' \<mapsto> ManilaSecretName u,
             ''csi.storage.k8s.io/node-publish-secret-namespace'' \<mapsto> OperatorNamespace u]\<rparr>)"

definition applyStorageClass :: "world \<Rightarrow> StorageClass \<Rightarrow> err option \<times> world" where
  "applyStorageClass w expected =
     (case Lister_Get w (Name (ObjectMeta expected)) of
        (Inr current, w1) \<Rightarrow>
          if Parameters expected \<noteq> Parameters current then
            (case StorageClasses_Delete w1 (Name (ObjectMeta expected)) of
               (Some e, w2) \<Rightarrow> (if IsNotFound e then None else Some e, w2)
             | (None, w2) \<Rightarrow>
                 ApplyStorageClass w2
                   (expected\<lparr>ObjectMeta := EnsureObjectMeta (ObjectMeta current) (ObjectMeta expected)\<rparr>))
          else ApplyStorageClass w1 expected
      | (Inl _, w1) \<Rightarrow> ApplyStorageClass w1 expected)"

fun syncStorageClasses_loop ::
  "util \<Rightarrow> world \<Rightarrow> ShareType list \<Rightarrow> err list \<Rightarrow> err list \<times> world" where
  "syncStorageClasses_loop u w [] errs = (errs, w)"
| "syncStorageClasses_loop u w (shareType # rest) errs =
     (let sc = generateStorageClass u shareType
      in case applyStorageClass w sc of
           (Some e, w') \<Rightarrow> syncStorageClasses_loop u w' rest (errs @ [e])
         | (None, w') \<Rightarrow> syncStorageClasses_loop u w' rest errs)"

definition syncStorageClasses :: "util \<Rightarrow> world \<Rightarrow> ShareType list \<Rightarrow> err option \<times> world" where
  "syncStorageClasses u w sts =
     (case syncStorageClasses_loop u w sts [] of
        (errs, w') \<Rightarrow> (if length errs \<noteq> 0 then NewAggregate errs else None, w'))"

fun startControllers :: "(Runnable \<times> nat) list \<Rightarrow> Runnable list \<Rightarrow> (Runnable \<times> nat) list" where
  \<comment> \<open>the loop \<^verbatim>\<open>for _, ctrl := range c.csiControllers { go ctrl.Run(ctx, 1) }\<close>\<close>
  "startControllers gs [] = gs"
| "startControllers gs (ctrl # rest) = startControllers (gs @ [(ctrl, 1)]) rest"

definition sync :: "util \<Rightarrow> Controller \<Rightarrow> world \<Rightarrow> err option \<times> Controller \<times> world" where
  "sync u c w =
     (case GetOperatorState w of
        (Inl e, w1) \<Rightarrow> (Some e, c, w1)
      | (Inr managementState, w1) \<Rightarrow>
          if managementState \<noteq> Managed then (None, c, w1)
          else
            (case GetShareTypes w1 of
               (Inl e, w2) \<Rightarrow>
                 (case e of
                    ErrEndpointNotFound \<Rightarrow>
                      (case setDisabled w2 ''This OpenStack does not provide Manila service'' of
                         (r, w3) \<Rightarrow> (r, c, w3))
                  | _ \<Rightarrow> (Some e, c, w2))
             | (Inr sts, w2) \<Rightarrow>
                 if length sts = 0 then
                   (case setDisabled w2 ''Manila does not provide any share types'' of
                      (r, w3) \<Rightarrow> (r, c, w3))
                 else
                   (let c1 = (if \<not> controllersRunning c
                              then c\<lparr>controllersRunning := True,
                                     goroutines := startControllers (goroutines c) (csiControllers c)\<rparr>
                              else c)
                    in case syncStorageClasses u w2 sts of
                         (Some e, w3) \<Rightarrow> (Some e, c1, w3)
                       | (None, w3) \<Rightarrow>
                           (case setEnabled w3 of (r, w4) \<Rightarrow> (r, c1, w4)))))"

fun syncs :: "util \<Rightarrow> Controller \<Rightarrow> world list \<Rightarrow> Controller" where
  \<comment> \<open>Consecutive syncs of one controller. \<open>ws\<close> gives, for each sync in turn, the world
      it runs against: between two syncs the world may have changed in any way.\<close>
  "syncs u c [] = c"
| "syncs u c (w # ws) = (case sync u c w of (r, c', w') \<Rightarrow> syncs u c' ws)"

subsection \<open>What the statements observe\<close>

text \<open>
  \<open>listerGets\<close> and \<open>storageWrites\<close> read the log of calls: the names looked up in the
  lister, and the writes of storage classes. \<open>newCalls w w'\<close> is what a run from \<open>w\<close> to
  \<open>w'\<close> added to the log. \<open>itemResults\<close> is the outcome of each share type of a list
  when every one of them is reconciled in turn, whatever the outcome of the ones before it,
  \<open>itemsWorld\<close> is the world that this leaves, and \<open>itemErrors\<close> keeps the errors among
  the outcomes. \<open>availableCondition\<close> and \<open>disabledCondition msg\<close> are the two conditions that
  \<open>setEnabled\<close> and \<open>setDisabled\<close> write, with the constants spelled out.
\<close>

fun listerGets :: "call list \<Rightarrow> string list" where
  "listerGets [] = []"
| "listerGets (CallListerGet n # cs) = n # listerGets cs"
| "listerGets (_ # cs) = listerGets cs"

fun storageWrites :: "call list \<Rightarrow> call list" where
  "storageWrites [] = []"
| "storageWrites (CallDelete n # cs) = CallDelete n # storageWrites cs"
| "storageWrites (CallCreate sc # cs) = CallCreate sc # storageWrites cs"
| "storageWrites (CallUpdate sc # cs) = CallUpdate sc # storageWrites cs"
| "storageWrites (_ # cs) = storageWrites cs"

definition newCalls :: "world \<Rightarrow> world \<Rightarrow> call list" where
  "newCalls w w' = drop (length (calls w)) (calls w')"

fun itemResults :: "util \<Rightarrow> world \<Rightarrow> ShareType list \<Rightarrow> err option list" where
  "itemResults u w [] = []"
| "itemResults u w (shareType # rest) =
     (case applyStorageClass w (generateStorageClass u shareType) of
        (r, w') \<Rightarrow> r # itemResults u w' rest)"

fun itemsWorld :: "util \<Rightarrow> world \<Rightarrow> ShareType list \<Rightarrow> world" where
  "itemsWorld u w [] = w"
| "itemsWorld u w (st # rest) =
     (case applyStorageClass w (generateStorageClass u st) of
        (r, w') \<Rightarrow> itemsWorld u w' rest)"

fun itemErrors :: "err option list \<Rightarrow> err list" where
  "itemErrors [] = []"
| "itemErrors (None # rs) = itemErrors rs"
| "itemErrors (Some e # rs) = e # itemErrors rs"

definition secretKeys :: "string set" where
  \<comment> \<open>the six parameter keys by which the CSI sidecars find the Manila credentials\<close>
  "secretKeys =
     {''csi.storage.k8s.io/provisioner-secret-name'',
      ''csi.storage.k8s.io/provisioner-secret-namespace'',
      ''csi.storage.k8s.io/node-stage-secret-name'',
      ''csi.storage.k8s.io/node-stage-secret-namespace'',
      ''csi.storage.k8s.io/node-publish-secret-name'',
      ''csi.storage.k8s.io/node-publish-secret-namespace''}"

definition availableCondition :: OperatorCondition where
  "availableCondition =
     \<lparr>Type = ''ManilaControllerAvailable'', Status = ''True'', Reason = [], Message = []\<rparr>"

definition disabledCondition :: "string \<Rightarrow> OperatorCondition" where
  "disabledCondition msg =
     \<lparr>Type = ''ManilaControllerDisabled'', Status = ''True'', Reason = ''NoManila'', Message = msg\<rparr>"

definition conditionsExclusive :: "OperatorCondition list \<Rightarrow> bool" where
  "conditionsExclusive cs =
     (\<not> (IsOperatorConditionTrue cs ''ManilaControllerAvailable''
         \<and> IsOperatorConditionTrue cs ''ManilaControllerDisabled''))"

subsection \<open>Example inputs\<close>

definition exampleUtil :: util where
  "exampleUtil =
     \<lparr>StorageClassNamePrefix = ''manila-'', ManilaSecretName = ''csi-manila-secrets'',
      OperatorNamespace = ''openshift-manila-csi-driver''\<rparr>"

definition olmUtil :: util where
  \<comment> \<open>the same operator installed in another namespace\<close>
  "olmUtil = exampleUtil\<lparr>OperatorNamespace := ''openshift-manila-csi-driver-operator''\<rparr>"

definition exampleController :: Controller where
  "exampleController =
     \<lparr>csiControllers = [''manila'', ''nfs''], controllersRunning = False, goroutines = []\<rparr>"

definition shareType :: "string \<Rightarrow> ShareType" where
  "shareType n = \<lparr>ShareTypeID = [], ShareTypeName = n\<rparr>"

definition quietWorld :: world where
  \<comment> \<open>a managed operator, no condition yet, no share type, no storage class, no fault\<close>
  "quietWorld =
     \<lparr>operatorState = Inr Managed, conditions = [], shareTypes = Inr [],
      lister = (\<lambda>n. Inl StatusNotFound), api = Map.empty, faults = (\<lambda>n. None), calls = []\<rparr>"

definition unmanagedWorld :: world where
  "unmanagedWorld =
     quietWorld\<lparr>operatorState := Inr ''Unmanaged'', shareTypes := Inr [shareType ''default'']\<rparr>"

definition listerDownWorld :: world where
  "listerDownWorld = quietWorld\<lparr>lister := (\<lambda>n. Inl (ErrOther ''cache not synced''))\<rparr>"

definition desiredClass :: StorageClass where
  "desiredClass = generateStorageClass exampleUtil (shareType ''default'')"

definition observedClass :: StorageClass where
  \<comment> \<open>the class an earlier installation created, since marked as the default class\<close>
  "observedClass =
     (generateStorageClass olmUtil (shareType ''default''))
       \<lparr>ObjectMeta :=
          \<lparr>Name = ''manila-default'', Namespace = [], Labels = Map.empty,
           Annotations = [''storageclass.kubernetes.io/is-default-class'' \<mapsto> ''true'']\<rparr>\<rparr>"

definition staleListerWorld :: world where
  \<comment> \<open>the lister still shows the observed class; the API server no longer has it\<close>
  "staleListerWorld =
     quietWorld\<lparr>lister := (\<lambda>n. if n = ''manila-default'' then Inr observedClass
                                 else Inl StatusNotFound)\<rparr>"

definition replaceWorld :: world where
  "replaceWorld = staleListerWorld\<lparr>api := [''manila-default'' \<mapsto> observedClass]\<rparr>"

definition bothConditionsWorld :: world where
  "bothConditionsWorld = quietWorld\<lparr>conditions := [disabledCondition ''old'', availableCondition]\<rparr>"

definition noManilaWorld :: world where
  "noManilaWorld =
     quietWorld\<lparr>shareTypes := Inl ErrEndpointNotFound, conditions := [availableCondition]\<rparr>"

definition probeTimeoutWorld :: world where
  "probeTimeoutWorld = noManilaWorld\<lparr>shareTypes := Inl (ErrOther ''timeout'')\<rparr>"

definition statusDownWorld :: world where
  \<comment> \<open>the third call of the sync, the update of the status, fails\<close>
  "statusDownWorld =
     noManilaWorld\<lparr>faults := (\<lambda>n. if n = 2 then Some (ErrOther ''status update failed'') else None)\<rparr>"

definition noShareTypesWorld :: world where
  "noShareTypesWorld = quietWorld\<lparr>conditions := [availableCondition]\<rparr>"

definition noShareTypesStatusDownWorld :: world where
  "noShareTypesStatusDownWorld =
     noShareTypesWorld\<lparr>faults := (\<lambda>n. if n = 2 then Some (ErrOther ''status update failed'') else None)\<rparr>"

definition oneShareTypeWorld :: world where
  "oneShareTypeWorld = quietWorld\<lparr>shareTypes := Inr [shareType ''default'']\<rparr>"

definition threeShareTypesWorld :: world where
  \<comment> \<open>the sixth call of the sync, the create of the second class, fails\<close>
  "threeShareTypesWorld =
     quietWorld
       \<lparr>shareTypes := Inr [shareType ''a'', shareType ''b'', shareType ''c''],
        faults := (\<lambda>n. if n = 5 then Some (ErrOther ''create failed'') else None)\<rparr>"

section \<open>Properties\<close>

subsection \<open>Auxiliary facts\<close>

lemma listerGets_append: "listerGets (xs @ ys) = listerGets xs @ listerGets ys"
  by (induction xs rule: listerGets.induct) auto

lemma startControllers_eq: "startControllers gs cs = gs @ map (\<lambda>ctrl. (ctrl, 1)) cs"
  by (induction cs arbitrary: gs) auto

lemma find_SetOperatorCondition_same:
  "find (\<lambda>c. Type c = Type n) (SetOperatorCondition cs n) = Some n"
  by (induction cs) auto

lemma find_filter_other:
  "t \<noteq> t' \<Longrightarrow> find (\<lambda>c. Type c = t) (filter (\<lambda>c. Type c \<noteq> t') cs) = find (\<lambda>c. Type c = t) cs"
  by (induction cs) auto

lemma find_filter_same:
  "find (\<lambda>c. Type c = t) (filter (\<lambda>c. Type c \<noteq> t) cs) = None"
  by (induction cs) auto

lemma UpdateStatus_cases:
  "UpdateStatus w fs =
     (case faults w (length (calls w)) of
        Some e \<Rightarrow> (Some e, w\<lparr>calls := calls w @ [CallUpdateStatus]\<rparr>)
      | None \<Rightarrow> (None, w\<lparr>calls := calls w @ [CallUpdateStatus],
                         conditions := fold (\<lambda>f cs. f cs) fs (conditions w)\<rparr>))"
  by (simp add: UpdateStatus_def invoke_def split: option.splits)

lemma ApplyStorageClass_frame:
  "ApplyStorageClass w required = (r, w') \<Longrightarrow>
   conditions w' = conditions w \<and>
   (\<exists>sc. calls w' = calls w @ [CallCreate sc] \<or> calls w' = calls w @ [CallUpdate sc])"
  by (auto simp: ApplyStorageClass_def invoke_def Let_def split: option.splits)

lemma StorageClasses_Delete_frame:
  "StorageClasses_Delete w n = (r, w') \<Longrightarrow>
   conditions w' = conditions w \<and> calls w' = calls w @ [CallDelete n]"
  by (auto simp: StorageClasses_Delete_def invoke_def split: option.splits)

lemma applyStorageClass_frame:
  assumes "applyStorageClass w expected = (r, w')"
  shows "conditions w' = conditions w \<and>
         (\<exists>cs. calls w' = calls w @ CallListerGet (Name (ObjectMeta expected)) # cs
               \<and> listerGets cs = [] \<and> CallUpdateStatus \<notin> set cs)"
proof (cases "lister w (Name (ObjectMeta expected))")
  case (Inl e)
  with assms have "ApplyStorageClass (w\<lparr>calls := calls w @ [CallListerGet (Name (ObjectMeta expected))]\<rparr>) expected = (r, w')"
    by (simp add: applyStorageClass_def Lister_Get_def)
  from ApplyStorageClass_frame[OF this] show ?thesis by auto
next
  case (Inr current)
  show ?thesis
  proof (cases "Parameters expected = Parameters current")
    case True
    with Inr assms have "ApplyStorageClass (w\<lparr>calls := calls w @ [CallListerGet (Name (ObjectMeta expected))]\<rparr>) expected = (r, w')"
      by (simp add: applyStorageClass_def Lister_Get_def)
    from ApplyStorageClass_frame[OF this] show ?thesis by auto
  next
    case False
    obtain rd wd where d: "StorageClasses_Delete (w\<lparr>calls := calls w @ [CallListerGet (Name (ObjectMeta expected))]\<rparr>) (Name (ObjectMeta expected)) = (rd, wd)"
      by (cases "StorageClasses_Delete (w\<lparr>calls := calls w @ [CallListerGet (Name (ObjectMeta expected))]\<rparr>) (Name (ObjectMeta expected))") auto
    note fd = StorageClasses_Delete_frame[OF d]
    show ?thesis
    proof (cases rd)
      case (Some e)
      with d Inr False assms have "w' = wd"
        by (simp add: applyStorageClass_def Lister_Get_def)
      with fd show ?thesis by auto
    next
      case None
      with d Inr False assms have "ApplyStorageClass wd (expected\<lparr>ObjectMeta := EnsureObjectMeta (ObjectMeta current) (ObjectMeta expected)\<rparr>) = (r, w')"
        by (simp add: applyStorageClass_def Lister_Get_def)
      from ApplyStorageClass_frame[OF this] fd show ?thesis by auto
    qed
  qed
qed

lemma loop_frame:
  "syncStorageClasses_loop u w sts errs = (errs', w') \<Longrightarrow>
   conditions w' = conditions w \<and>
   errs' = errs @ itemErrors (itemResults u w sts) \<and>
   (\<exists>cs. calls w' = calls w @ cs
         \<and> listerGets cs = map (\<lambda>st. StorageClassNamePrefix u @ ShareTypeName st) sts
         \<and> CallUpdateStatus \<notin> set cs)"
proof (induction sts arbitrary: w errs)
  case Nil
  then show ?case by simp
next
  case (Cons st sts)
  obtain r w1 where a: "applyStorageClass w (generateStorageClass u st) = (r, w1)"
    by (cases "applyStorageClass w (generateStorageClass u st)") auto
  from applyStorageClass_frame[OF a]
  obtain cs1 where f1: "conditions w1 = conditions w"
    "calls w1 = calls w @ CallListerGet (StorageClassNamePrefix u @ ShareTypeName st) # cs1"
    "listerGets cs1 = []" "CallUpdateStatus \<notin> set cs1"
    by (auto simp: generateStorageClass_def)
  from Cons.prems a have l: "syncStorageClasses_loop u w1 sts (errs @ itemErrors [r]) = (errs', w')"
    by (cases r) auto
  from Cons.IH[OF l] obtain cs where f2: "conditions w' = conditions w1"
    "errs' = (errs @ itemErrors [r]) @ itemErrors (itemResults u w1 sts)"
    "calls w' = calls w1 @ cs"
    "listerGets cs = map (\<lambda>st. StorageClassNamePrefix u @ ShareTypeName st) sts"
    "CallUpdateStatus \<notin> set cs"
    by auto
  let ?cs = "CallListerGet (StorageClassNamePrefix u @ ShareTypeName st) # cs1 @ cs"
  have e: "errs' = errs @ itemErrors (itemResults u w (st # sts))"
    using f2(2) a by (cases r) auto
  have "calls w' = calls w @ ?cs"
    using f1 f2 by simp
  moreover have "listerGets ?cs = map (\<lambda>st. StorageClassNamePrefix u @ ShareTypeName st) (st # sts)"
    using f1 f2 by (simp add: listerGets_append)
  moreover have "CallUpdateStatus \<notin> set ?cs"
    using f1 f2 by simp
  ultimately have "\<exists>cs. calls w' = calls w @ cs
         \<and> listerGets cs = map (\<lambda>st. StorageClassNamePrefix u @ ShareTypeName st) (st # sts)
         \<and> CallUpdateStatus \<notin> set cs"
    by (intro exI[of _ ?cs] conjI)
  with e f1(1) f2(1) show ?case by simp
qed

lemma length_itemResults: "length (itemResults u w sts) = length sts"
  by (induction sts arbitrary: w) (auto split: prod.splits)

lemma syncStorageClasses_frame:
  assumes "syncStorageClasses u w sts = (r, w')"
  shows "r = NewAggregate (itemErrors (itemResults u w sts))
       \<and> conditions w' = conditions w
       \<and> (\<exists>cs. calls w' = calls w @ cs
             \<and> listerGets cs = map (\<lambda>st. StorageClassNamePrefix u @ ShareTypeName st) sts
             \<and> CallUpdateStatus \<notin> set cs)"
proof -
  obtain errs w1 where l: "syncStorageClasses_loop u w sts [] = (errs, w1)"
    by (cases "syncStorageClasses_loop u w sts []") auto
  with assms have "w' = w1" "r = NewAggregate errs"
    by (auto simp: syncStorageClasses_def NewAggregate_def)
  with loop_frame [OF l] show ?thesis by simp
qed

lemma storageWrites_append: "storageWrites (xs @ ys) = storageWrites xs @ storageWrites ys"
  by (induction xs rule: storageWrites.induct) auto

lemma loop_world:
  "syncStorageClasses_loop u w sts errs = (errs', w') \<Longrightarrow> w' = itemsWorld u w sts"
proof (induction sts arbitrary: w errs)
  case Nil
  then show ?case by simp
next
  case (Cons st sts)
  obtain r w1 where a: "applyStorageClass w (generateStorageClass u st) = (r, w1)"
    by (cases "applyStorageClass w (generateStorageClass u st)") auto
  from Cons.prems a have "\<exists>es. syncStorageClasses_loop u w1 sts es = (errs', w')"
    by (cases r) auto
  then obtain es where "syncStorageClasses_loop u w1 sts es = (errs', w')" by blast
  from Cons.IH [OF this] a show ?case by simp
qed

lemma applyStorageClass_writes:
  assumes "applyStorageClass w expected = (r, w')"
  shows "\<exists>cs. calls w' = calls w @ cs \<and> 1 \<le> length (storageWrites cs)"
proof -
  let ?n = "Name (ObjectMeta expected)"
  let ?w1 = "w\<lparr>calls := calls w @ [CallListerGet ?n]\<rparr>"
  have ap: "\<exists>cs. calls w' = calls w @ cs \<and> 1 \<le> length (storageWrites cs)"
    if "ApplyStorageClass w0 x = (r, w')" and "\<exists>ds. calls w0 = calls w @ ds" for w0 x
  proof -
    from that(2) obtain ds where ds: "calls w0 = calls w @ ds" by blast
    from ApplyStorageClass_frame [OF that(1)] obtain sc where
      "calls w' = calls w0 @ [CallCreate sc] \<or> calls w' = calls w0 @ [CallUpdate sc]" by blast
    then have "calls w' = calls w @ (ds @ [CallCreate sc]) \<or> calls w' = calls w @ (ds @ [CallUpdate sc])"
      using ds by simp
    then show ?thesis
      by (elim disjE) (rule exI, rule conjI, assumption, simp add: storageWrites_append)+
  qed
  show ?thesis
  proof (cases "lister w ?n")
    case (Inl e)
    with assms have "ApplyStorageClass ?w1 expected = (r, w')"
      by (simp add: applyStorageClass_def Lister_Get_def)
    then show ?thesis by (rule ap) simp
  next
    case (Inr current)
    show ?thesis
    proof (cases "Parameters expected = Parameters current")
      case True
      with Inr assms have "ApplyStorageClass ?w1 expected = (r, w')"
        by (simp add: applyStorageClass_def Lister_Get_def)
      then show ?thesis by (rule ap) simp
    next
      case False
      obtain rd wd where d: "StorageClasses_Delete ?w1 ?n = (rd, wd)"
        by (cases "StorageClasses_Delete ?w1 ?n") auto
      from StorageClasses_Delete_frame [OF d]
      have cd: "calls wd = calls w @ [CallListerGet ?n, CallDelete ?n]" by simp
      show ?thesis
      proof (cases rd)
        case (Some e)
        with d Inr False assms have "w' = wd"
          by (simp add: applyStorageClass_def Lister_Get_def)
        with cd have "calls w' = calls w @ [CallListerGet ?n, CallDelete ?n]" by simp
        then show ?thesis
          by (intro exI [of _ "[CallListerGet ?n, CallDelete ?n]"]) simp
      next
        case None
        with d Inr False assms have
          "ApplyStorageClass wd (expected\<lparr>ObjectMeta := EnsureObjectMeta (ObjectMeta current) (ObjectMeta expected)\<rparr>) = (r, w')"
          by (simp add: applyStorageClass_def Lister_Get_def)
        then show ?thesis by (rule ap) (simp add: cd)
      qed
    qed
  qed
qed

lemma itemsWorld_writes:
  "\<exists>cs. calls (itemsWorld u w sts) = calls w @ cs \<and> length sts \<le> length (storageWrites cs)"
proof (induction sts arbitrary: w)
  case Nil
  then show ?case by simp
next
  case (Cons st sts)
  obtain r w1 where a: "applyStorageClass w (generateStorageClass u st) = (r, w1)"
    by (cases "applyStorageClass w (generateStorageClass u st)") auto
  from applyStorageClass_writes [OF a] obtain cs1 where
    c1: "calls w1 = calls w @ cs1" "1 \<le> length (storageWrites cs1)" by blast
  from Cons.IH [of w1] obtain cs where
    c2: "calls (itemsWorld u w1 sts) = calls w1 @ cs" "length sts \<le> length (storageWrites cs)" by blast
  have "calls (itemsWorld u w (st # sts)) = calls w @ (cs1 @ cs)"
    using a c1 c2 by simp
  moreover have "length (st # sts) \<le> length (storageWrites (cs1 @ cs))"
    using c1 c2 by (simp add: storageWrites_append)
  ultimately show ?case by blast
qed

lemma syncStorageClasses_world:
  "syncStorageClasses u w sts = (r, w') \<Longrightarrow> w' = itemsWorld u w sts"
  by (auto simp: syncStorageClasses_def split: prod.splits dest: loop_world)

lemma applyStorageClass_parameters_differ:
  assumes "lister w (Name (ObjectMeta expected)) = Inr current"
    and "Parameters expected \<noteq> Parameters current"
  shows "applyStorageClass w expected =
     (case StorageClasses_Delete (w\<lparr>calls := calls w @ [CallListerGet (Name (ObjectMeta expected))]\<rparr>)
             (Name (ObjectMeta expected)) of
        (Some e, w2) \<Rightarrow> (if IsNotFound e then None else Some e, w2)
      | (None, w2) \<Rightarrow>
          ApplyStorageClass w2
            (expected\<lparr>ObjectMeta := EnsureObjectMeta (ObjectMeta current) (ObjectMeta expected)\<rparr>))"
  using assms by (simp add: applyStorageClass_def Lister_Get_def)

lemma desiredClass_name: "Name (ObjectMeta desiredClass) = ''manila-default''"
  by (simp add: desiredClass_def generateStorageClass_def exampleUtil_def shareType_def)

lemma observedClass_name: "Name (ObjectMeta observedClass) = ''manila-default''"
  by (simp add: observedClass_def)

lemma example_parameters_differ: "Parameters desiredClass \<noteq> Parameters observedClass"
proof
  assume "Parameters desiredClass = Parameters observedClass"
  then have "the (Parameters desiredClass) ''csi.storage.k8s.io/provisioner-secret-namespace''
           = the (Parameters observedClass) ''csi.storage.k8s.io/provisioner-secret-namespace''"
    by simp
  then show False
    by (simp add: desiredClass_def observedClass_def generateStorageClass_def exampleUtil_def
        olmUtil_def shareType_def)
qed

lemma condition_status:
  "Status availableCondition = ConditionTrue" "Status (disabledCondition msg) = ConditionTrue"
  by (simp_all add: availableCondition_def disabledCondition_def ConditionTrue_def)

lemma setDisabled_eq:
  "setDisabled w msg =
     (case faults w (length (calls w)) of
        Some e \<Rightarrow> (Some e, w\<lparr>calls := calls w @ [CallUpdateStatus]\<rparr>)
      | None \<Rightarrow>
          (None, w\<lparr>calls := calls w @ [CallUpdateStatus],
                   conditions := RemoveOperatorCondition
                     (SetOperatorCondition (conditions w) (disabledCondition msg))
                     ''ManilaControllerAvailable''\<rparr>))"
  by (simp add: setDisabled_def UpdateStatus_cases UpdateConditionFn_def removeConditionFn_def
      disabledCondition_def operatorConditionPrefix_def OperatorStatusTypeAvailable_def
      ConditionTrue_def split: option.splits)

lemma setEnabled_eq:
  "setEnabled w =
     (case faults w (length (calls w)) of
        Some e \<Rightarrow> (Some e, w\<lparr>calls := calls w @ [CallUpdateStatus]\<rparr>)
      | None \<Rightarrow>
          (None, w\<lparr>calls := calls w @ [CallUpdateStatus],
                   conditions := RemoveOperatorCondition
                     (SetOperatorCondition (conditions w) availableCondition)
                     ''ManilaControllerDisabled''\<rparr>))"
  by (simp add: setEnabled_def UpdateStatus_cases UpdateConditionFn_def removeConditionFn_def
      availableCondition_def operatorConditionPrefix_def OperatorStatusTypeAvailable_def
      ConditionTrue_def split: option.splits)

lemma find_after_disable:
  "FindOperatorCondition
     (RemoveOperatorCondition (SetOperatorCondition cs (disabledCondition msg)) ''ManilaControllerAvailable'')
     ''ManilaControllerDisabled'' = Some (disabledCondition msg)"
  "FindOperatorCondition
     (RemoveOperatorCondition (SetOperatorCondition cs (disabledCondition msg)) ''ManilaControllerAvailable'')
     ''ManilaControllerAvailable'' = None"
  using find_SetOperatorCondition_same [of "disabledCondition msg" cs]
  by (simp_all add: FindOperatorCondition_def RemoveOperatorCondition_def find_filter_other
      find_filter_same disabledCondition_def)

lemma find_after_enable:
  "FindOperatorCondition
     (RemoveOperatorCondition (SetOperatorCondition cs availableCondition) ''ManilaControllerDisabled'')
     ''ManilaControllerAvailable'' = Some availableCondition"
  "FindOperatorCondition
     (RemoveOperatorCondition (SetOperatorCondition cs availableCondition) ''ManilaControllerDisabled'')
     ''ManilaControllerDisabled'' = None"
  using find_SetOperatorCondition_same [of availableCondition cs]
  by (simp_all add: FindOperatorCondition_def RemoveOperatorCondition_def find_filter_other
      find_filter_same availableCondition_def)

lemma sync_probe:
  assumes "operatorState w = Inr Managed"
  shows "sync u c w =
    (case shareTypes w of
       Inl e \<Rightarrow>
         (case e of
            ErrEndpointNotFound \<Rightarrow>
              (case setDisabled (w\<lparr>calls := calls w @ [CallGetOperatorState, CallGetShareTypes]\<rparr>)
                      ''This OpenStack does not provide Manila service'' of
                 (r, w3) \<Rightarrow> (r, c, w3))
          | _ \<Rightarrow> (Some e, c, w\<lparr>calls := calls w @ [CallGetOperatorState, CallGetShareTypes]\<rparr>))
     | Inr sts \<Rightarrow>
         if sts = [] then
           (case setDisabled (w\<lparr>calls := calls w @ [CallGetOperatorState, CallGetShareTypes]\<rparr>)
                   ''Manila does not provide any share types'' of
              (r, w3) \<Rightarrow> (r, c, w3))
         else
           (let c1 = (if \<not> controllersRunning c
                      then c\<lparr>controllersRunning := True,
                             goroutines := startControllers (goroutines c) (csiControllers c)\<rparr>
                      else c)
            in case syncStorageClasses u (w\<lparr>calls := calls w @ [CallGetOperatorState, CallGetShareTypes]\<rparr>) sts of
                 (Some e, w3) \<Rightarrow> (Some e, c1, w3)
               | (None, w3) \<Rightarrow> (case setEnabled w3 of (r, w4) \<Rightarrow> (r, c1, w4))))"
  using assms
  by (simp add: sync_def GetOperatorState_def GetShareTypes_def split: sum.splits err.splits)

lemma sync_controller:
  assumes "operatorState w = Inr Managed" and "shareTypes w = Inr sts" and "sts \<noteq> []"
  shows "fst (snd (sync u c w)) =
           (if controllersRunning c then c
            else c\<lparr>controllersRunning := True,
                   goroutines := goroutines c @ map (\<lambda>ctrl. (ctrl, 1)) (csiControllers c)\<rparr>)"
  using assms
  by (simp add: sync_probe startControllers_eq Let_def split: prod.splits option.splits)

lemma sync_controller_any:
  "fst (snd (sync u c w)) = c
   \<or> (\<not> controllersRunning c
      \<and> fst (snd (sync u c w)) =
          c\<lparr>controllersRunning := True,
            goroutines := goroutines c @ map (\<lambda>ctrl. (ctrl, 1)) (csiControllers c)\<rparr>)"
proof (cases "operatorState w")
  case (Inl e)
  then show ?thesis by (simp add: sync_def GetOperatorState_def)
next
  case (Inr ms)
  show ?thesis
  proof (cases "ms = Managed")
    case False
    with Inr show ?thesis by (simp add: sync_def GetOperatorState_def)
  next
    case True
    with Inr have m: "operatorState w = Inr Managed" by simp
    show ?thesis
    proof (cases "shareTypes w")
      case (Inl e)
      with m show ?thesis
        by (cases e) (simp_all add: sync_probe split: prod.splits)
    next
      case (Inr sts)
      show ?thesis
      proof (cases "sts = []")
        case True
        with m Inr show ?thesis by (simp add: sync_probe split: prod.splits)
      next
        case False
        from sync_controller [OF m Inr False] show ?thesis by auto
      qed
    qed
  qed
qed

lemma syncs_controller:
  assumes "\<forall>w \<in> set ws. operatorState w = Inr Managed \<and> (\<exists>sts. shareTypes w = Inr sts \<and> sts \<noteq> [])"
  shows "syncs u c ws =
           (if controllersRunning c \<or> ws = [] then c
            else c\<lparr>controllersRunning := True,
                   goroutines := goroutines c @ map (\<lambda>ctrl. (ctrl, 1)) (csiControllers c)\<rparr>)"
  using assms
proof (induction ws arbitrary: c)
  case Nil
  then show ?case by simp
next
  case (Cons w ws)
  from Cons.prems obtain sts where
    w: "operatorState w = Inr Managed" "shareTypes w = Inr sts" "sts \<noteq> []"
    by auto
  from Cons.prems have rest: "\<forall>w \<in> set ws. operatorState w = Inr Managed \<and> (\<exists>sts. shareTypes w = Inr sts \<and> sts \<noteq> [])"
    by simp
  have "syncs u c (w # ws) = syncs u (fst (snd (sync u c w))) ws"
    by (simp split: prod.splits)
  then show ?case
    using Cons.IH [OF rest] sync_controller [OF w] by simp
qed

subsection \<open>The desired storage class\<close>

text \<open>
  C9. The desired storage class is a function of the share type's name and of the three
  constants of \<^verbatim>\<open>pkg/util\<close> alone (no state and no collaborator is an argument of
  \<open>generateStorageClass\<close>, so computing it twice gives the same object): its name is the
  prefix followed by the share type's name, its provisioner is
  \<^verbatim>\<open>manila.csi.openstack.org\<close>, and its parameters are a non-nil map whose keys are
  \<^verbatim>\<open>type\<close>, bound to the share type's name, and exactly six secret-reference keys.
\<close>

theorem generateStorageClass_shape:
  "Name (ObjectMeta (generateStorageClass u st)) = StorageClassNamePrefix u @ ShareTypeName st
   \<and> Provisioner (generateStorageClass u st) = ''manila.csi.openstack.org''
   \<and> (\<exists>m. Parameters (generateStorageClass u st) = Some m
          \<and> m ''type'' = Some (ShareTypeName st)
          \<and> dom m = insert ''type'' secretKeys
          \<and> ''type'' \<notin> secretKeys \<and> card secretKeys = 6
          \<and> m ''csi.storage.k8s.io/provisioner-secret-name'' = Some (ManilaSecretName u)
          \<and> m ''csi.storage.k8s.io/provisioner-secret-namespace'' = Some (OperatorNamespace u)
          \<and> m ''csi.storage.k8s.io/node-stage-secret-name'' = Some (ManilaSecretName u)
          \<and> m ''csi.storage.k8s.io/node-stage-secret-namespace'' = Some (OperatorNamespace u)
          \<and> m ''csi.storage.k8s.io/node-publish-secret-name'' = Some (ManilaSecretName u)
          \<and> m ''csi.storage.k8s.io/node-publish-secret-namespace'' = Some (OperatorNamespace u))
   \<and> generateStorageClass u st
       = generateStorageClass u \<lparr>ShareTypeID = i, ShareTypeName = ShareTypeName st\<rparr>"
  by (auto simp add: generateStorageClass_def secretKeys_def)

theorem generateStorageClass_shape_witness:
  "map (\<lambda>st. Name (ObjectMeta (generateStorageClass exampleUtil st)))
     [shareType ''default'', shareType ''fast''] = [''manila-default'', ''manila-fast'']
   \<and> map (\<lambda>st. Provisioner (generateStorageClass exampleUtil st))
     [shareType ''default'', shareType ''fast'']
       = [''manila.csi.openstack.org'', ''manila.csi.openstack.org'']
   \<and> map (\<lambda>st. map_option (\<lambda>m. m ''type'') (Parameters (generateStorageClass exampleUtil st)))
     [shareType ''default'', shareType ''fast''] = [Some (Some ''default''), Some (Some ''fast'')]"
proof -
  from generateStorageClass_shape [of exampleUtil "shareType ''default''"]
  obtain m where d: "Name (ObjectMeta (generateStorageClass exampleUtil (shareType ''default'')))
        = StorageClassNamePrefix exampleUtil @ ShareTypeName (shareType ''default'')"
    "Provisioner (generateStorageClass exampleUtil (shareType ''default'')) = ''manila.csi.openstack.org''"
    "Parameters (generateStorageClass exampleUtil (shareType ''default'')) = Some m"
    "m ''type'' = Some (ShareTypeName (shareType ''default''))"
    by blast
  from generateStorageClass_shape [of exampleUtil "shareType ''fast''"]
  obtain m' where f: "Name (ObjectMeta (generateStorageClass exampleUtil (shareType ''fast'')))
        = StorageClassNamePrefix exampleUtil @ ShareTypeName (shareType ''fast'')"
    "Provisioner (generateStorageClass exampleUtil (shareType ''fast'')) = ''manila.csi.openstack.org''"
    "Parameters (generateStorageClass exampleUtil (shareType ''fast'')) = Some m'"
    "m' ''type'' = Some (ShareTypeName (shareType ''fast''))"
    by blast
  from d f show ?thesis
    by (simp add: exampleUtil_def shareType_def)
qed

subsection \<open>Reconciling one storage class\<close>

text \<open>
  C10. When the lister's lookup of the observed class returns an error, whatever the
  error, \<open>applyStorageClass\<close> goes on as if the class were absent: it makes the one call
  to \<open>ApplyStorageClass\<close> with the expected object as it is and returns what that call
  returns. The lookup's error is dropped and no delete is issued.
\<close>

theorem applyStorageClass_lister_error:
  assumes "lister w (Name (ObjectMeta expected)) = Inl e"
  shows "applyStorageClass w expected
           = ApplyStorageClass (w\<lparr>calls := calls w @ [CallListerGet (Name (ObjectMeta expected))]\<rparr>) expected
         \<and> (\<forall>n. CallDelete n \<notin> set (newCalls w (snd (applyStorageClass w expected))))"
proof -
  let ?w1 = "w\<lparr>calls := calls w @ [CallListerGet (Name (ObjectMeta expected))]\<rparr>"
  have eq: "applyStorageClass w expected = ApplyStorageClass ?w1 expected"
    using assms by (simp add: applyStorageClass_def Lister_Get_def)
  obtain r w' where a: "ApplyStorageClass ?w1 expected = (r, w')"
    by (cases "ApplyStorageClass ?w1 expected") auto
  from ApplyStorageClass_frame [OF a]
  have "\<forall>n. CallDelete n \<notin> set (newCalls w w')"
    by (auto simp: newCalls_def)
  with eq a show ?thesis by simp
qed

theorem applyStorageClass_lister_error_witness:
  "lister listerDownWorld (Name (ObjectMeta (generateStorageClass exampleUtil (shareType ''default''))))
     = Inl (ErrOther ''cache not synced'')
   \<and> applyStorageClass listerDownWorld (generateStorageClass exampleUtil (shareType ''default''))
       = ApplyStorageClass (listerDownWorld\<lparr>calls := [CallListerGet ''manila-default'']\<rparr>)
           (generateStorageClass exampleUtil (shareType ''default''))
   \<and> fst (applyStorageClass listerDownWorld (generateStorageClass exampleUtil (shareType ''default'')))
       = None"
  using applyStorageClass_lister_error
    [of listerDownWorld "generateStorageClass exampleUtil (shareType ''default'')"
        "ErrOther ''cache not synced''"]
  by (simp add: listerDownWorld_def quietWorld_def generateStorageClass_def exampleUtil_def
      shareType_def ApplyStorageClass_def invoke_def)

text \<open>
  C1. The claim: when the observed class has other parameters and the delete answers
  "not found", the item still goes on to create the class, and succeeds. The source
  returns inside the error branch of the delete: with "not found" it sets \<^verbatim>\<open>err = nil\<close>
  and then runs \<^verbatim>\<open>return err\<close>, so the item reports success and nothing is created.
  Below, the lister still shows the class of the earlier installation and the API server
  has none: the only write is the delete, and the API server is left without the class.
\<close>

theorem applyStorageClass_not_found_returns_early:
  "lister staleListerWorld (Name (ObjectMeta desiredClass)) = Inr observedClass
   \<and> Parameters desiredClass \<noteq> Parameters observedClass
   \<and> StorageClasses_Delete (staleListerWorld\<lparr>calls := [CallListerGet ''manila-default'']\<rparr>) ''manila-default''
       = (Some StatusNotFound,
          staleListerWorld\<lparr>calls := [CallListerGet ''manila-default'', CallDelete ''manila-default'']\<rparr>)
   \<and> applyStorageClass staleListerWorld desiredClass
       = (None, staleListerWorld\<lparr>calls := [CallListerGet ''manila-default'', CallDelete ''manila-default'']\<rparr>)
   \<and> api (snd (applyStorageClass staleListerWorld desiredClass)) ''manila-default'' = None
   \<and> storageWrites (calls (snd (applyStorageClass staleListerWorld desiredClass)))
       = [CallDelete ''manila-default'']"
proof -
  have l: "lister staleListerWorld (Name (ObjectMeta desiredClass)) = Inr observedClass"
    by (simp add: desiredClass_name staleListerWorld_def)
  have d: "StorageClasses_Delete (staleListerWorld\<lparr>calls := [CallListerGet ''manila-default'']\<rparr>) ''manila-default''
       = (Some StatusNotFound,
          staleListerWorld\<lparr>calls := [CallListerGet ''manila-default'', CallDelete ''manila-default'']\<rparr>)"
    by (simp add: StorageClasses_Delete_def invoke_def staleListerWorld_def quietWorld_def)
  have c: "calls staleListerWorld = []"
    by (simp add: staleListerWorld_def quietWorld_def)
  have a: "applyStorageClass staleListerWorld desiredClass
       = (None, staleListerWorld\<lparr>calls := [CallListerGet ''manila-default'', CallDelete ''manila-default'']\<rparr>)"
    using applyStorageClass_parameters_differ [OF l example_parameters_differ] d c
    by (simp add: desiredClass_name)
  have "api staleListerWorld ''manila-default'' = None"
    by (simp add: staleListerWorld_def quietWorld_def)
  with l example_parameters_differ d a show ?thesis by simp
qed

text \<open>
  C2. When the lister shows a class of the expected name whose parameters differ from the
  expected ones and the delete succeeds, \<open>applyStorageClass\<close> makes three calls, in this
  order: the lookup, one delete, one create. The created object has the expected
  provisioner and parameters, and the observed metadata merged with the expected: a label
  or an annotation that the expected object sets wins, every other one of the observed
  object is carried over, and so is the observed namespace unless the expected object
  sets one. When the create succeeds the API server holds the created object.
\<close>

theorem applyStorageClass_replaces:
  assumes "lister w (Name (ObjectMeta expected)) = Inr current"
    and "Name (ObjectMeta current) = Name (ObjectMeta expected)"
    and "Parameters expected \<noteq> Parameters current"
    and "fst (StorageClasses_Delete
                (w\<lparr>calls := calls w @ [CallListerGet (Name (ObjectMeta expected))]\<rparr>)
                (Name (ObjectMeta expected))) = None"
  shows "\<exists>created.
           newCalls w (snd (applyStorageClass w expected))
             = [CallListerGet (Name (ObjectMeta expected)), CallDelete (Name (ObjectMeta expected)),
                CallCreate created]
         \<and> ObjectMeta created = EnsureObjectMeta (ObjectMeta current) (ObjectMeta expected)
         \<and> Name (ObjectMeta created) = Name (ObjectMeta expected)
         \<and> (\<forall>k. Annotations (ObjectMeta created) k
                  = (case Annotations (ObjectMeta expected) k of
                       Some v \<Rightarrow> Some v
                     | None \<Rightarrow> Annotations (ObjectMeta current) k))
         \<and> (\<forall>k. Labels (ObjectMeta created) k
                  = (case Labels (ObjectMeta expected) k of
                       Some v \<Rightarrow> Some v
                     | None \<Rightarrow> Labels (ObjectMeta current) k))
         \<and> Namespace (ObjectMeta created)
             = (if Namespace (ObjectMeta expected) \<noteq> [] then Namespace (ObjectMeta expected)
                else Namespace (ObjectMeta current))
         \<and> Provisioner created = Provisioner expected
         \<and> Parameters created = Parameters expected
         \<and> (case fst (applyStorageClass w expected) of
               None \<Rightarrow> api (snd (applyStorageClass w expected)) (Name (ObjectMeta expected)) = Some created
             | Some e \<Rightarrow> api (snd (applyStorageClass w expected)) (Name (ObjectMeta expected)) = None)"
proof -
  let ?n = "Name (ObjectMeta expected)"
  let ?w1 = "w\<lparr>calls := calls w @ [CallListerGet ?n]\<rparr>"
  let ?created = "expected\<lparr>ObjectMeta := EnsureObjectMeta (ObjectMeta current) (ObjectMeta expected)\<rparr>"
  obtain w2 where d: "StorageClasses_Delete ?w1 ?n = (None, w2)"
    using assms(4) by (cases "StorageClasses_Delete ?w1 ?n") auto
  then have w2: "calls w2 = calls w @ [CallListerGet ?n, CallDelete ?n]" "api w2 ?n = None"
    by (auto simp: StorageClasses_Delete_def invoke_def split: option.splits)
  have n: "Name (ObjectMeta ?created) = ?n"
    using assms(2) by (simp add: EnsureObjectMeta_def)
  have a: "applyStorageClass w expected = ApplyStorageClass w2 ?created"
    using applyStorageClass_parameters_differ [OF assms(1) assms(3)] d by simp
  have c: "newCalls w (snd (ApplyStorageClass w2 ?created))
         = [CallListerGet ?n, CallDelete ?n, CallCreate ?created]"
    using w2 n by (simp add: ApplyStorageClass_def invoke_def newCalls_def split: option.splits)
  have s: "(case fst (ApplyStorageClass w2 ?created) of
               None \<Rightarrow> api (snd (ApplyStorageClass w2 ?created)) ?n = Some ?created
             | Some e \<Rightarrow> api (snd (ApplyStorageClass w2 ?created)) ?n = None)"
    using w2 n by (simp add: ApplyStorageClass_def invoke_def split: option.splits)
  have m1: "\<forall>k. Annotations (ObjectMeta ?created) k
                  = (case Annotations (ObjectMeta expected) k of
                       Some v \<Rightarrow> Some v
                     | None \<Rightarrow> Annotations (ObjectMeta current) k)"
    by (simp add: EnsureObjectMeta_def map_add_def)
  have m2: "\<forall>k. Labels (ObjectMeta ?created) k
                  = (case Labels (ObjectMeta expected) k of
                       Some v \<Rightarrow> Some v
                     | None \<Rightarrow> Labels (ObjectMeta current) k)"
    by (simp add: EnsureObjectMeta_def map_add_def)
  have m3: "Namespace (ObjectMeta ?created)
             = (if Namespace (ObjectMeta expected) \<noteq> [] then Namespace (ObjectMeta expected)
                else Namespace (ObjectMeta current))"
    by (simp add: EnsureObjectMeta_def)
  have p: "ObjectMeta ?created = EnsureObjectMeta (ObjectMeta current) (ObjectMeta expected)"
    "Provisioner ?created = Provisioner expected" "Parameters ?created = Parameters expected"
    by simp_all
  show ?thesis
    unfolding a by (intro exI [of _ ?created] conjI) (fact c p n m1 m2 m3 s)+
qed

theorem applyStorageClass_replaces_witness:
  "lister replaceWorld (Name (ObjectMeta desiredClass)) = Inr observedClass
   \<and> Name (ObjectMeta observedClass) = Name (ObjectMeta desiredClass)
   \<and> Parameters desiredClass \<noteq> Parameters observedClass
   \<and> fst (StorageClasses_Delete (replaceWorld\<lparr>calls := [CallListerGet ''manila-default'']\<rparr>)
            ''manila-default'') = None
   \<and> (\<exists>created.
          newCalls replaceWorld (snd (applyStorageClass replaceWorld desiredClass))
            = [CallListerGet ''manila-default'', CallDelete ''manila-default'', CallCreate created]
        \<and> Annotations (ObjectMeta created) ''storageclass.kubernetes.io/is-default-class''
            = Some ''true''
        \<and> Parameters created = Parameters desiredClass
        \<and> api (snd (applyStorageClass replaceWorld desiredClass)) ''manila-default'' = Some created)
   \<and> fst (applyStorageClass replaceWorld desiredClass) = None"
proof -
  have h1: "lister replaceWorld (Name (ObjectMeta desiredClass)) = Inr observedClass"
    by (simp add: desiredClass_name replaceWorld_def staleListerWorld_def)
  have h2: "Name (ObjectMeta observedClass) = Name (ObjectMeta desiredClass)"
    by (simp add: desiredClass_name observedClass_name)
  have c: "calls replaceWorld = []"
    by (simp add: replaceWorld_def staleListerWorld_def quietWorld_def)
  have d: "StorageClasses_Delete (replaceWorld\<lparr>calls := [CallListerGet ''manila-default'']\<rparr>)
             ''manila-default''
           = (None, replaceWorld\<lparr>calls := [CallListerGet ''manila-default'', CallDelete ''manila-default''],
                                api := Map.empty\<rparr>)"
    by (simp add: StorageClasses_Delete_def invoke_def replaceWorld_def staleListerWorld_def
        quietWorld_def)
  have h4: "fst (StorageClasses_Delete
                   (replaceWorld\<lparr>calls := calls replaceWorld @ [CallListerGet (Name (ObjectMeta desiredClass))]\<rparr>)
                   (Name (ObjectMeta desiredClass))) = None"
    using d c by (simp add: desiredClass_name)
  have r: "fst (applyStorageClass replaceWorld desiredClass) = None"
    using applyStorageClass_parameters_differ [OF h1 example_parameters_differ] d c
    by (simp add: desiredClass_name observedClass_name ApplyStorageClass_def invoke_def
        EnsureObjectMeta_def replaceWorld_def staleListerWorld_def quietWorld_def)
  from applyStorageClass_replaces [OF h1 h2 example_parameters_differ h4]
  obtain created where
    k: "newCalls replaceWorld (snd (applyStorageClass replaceWorld desiredClass))
          = [CallListerGet (Name (ObjectMeta desiredClass)),
             CallDelete (Name (ObjectMeta desiredClass)), CallCreate created]"
    and a: "\<forall>k. Annotations (ObjectMeta created) k
              = (case Annotations (ObjectMeta desiredClass) k of
                   Some v \<Rightarrow> Some v
                 | None \<Rightarrow> Annotations (ObjectMeta observedClass) k)"
    and p: "Parameters created = Parameters desiredClass"
    and s: "(case fst (applyStorageClass replaceWorld desiredClass) of
               None \<Rightarrow> api (snd (applyStorageClass replaceWorld desiredClass))
                         (Name (ObjectMeta desiredClass)) = Some created
             | Some e \<Rightarrow> api (snd (applyStorageClass replaceWorld desiredClass))
                           (Name (ObjectMeta desiredClass)) = None)"
    by blast
  have "Annotations (ObjectMeta created) ''storageclass.kubernetes.io/is-default-class'' = Some ''true''"
    using a by (simp add: desiredClass_def generateStorageClass_def observedClass_def)
  moreover have "api (snd (applyStorageClass replaceWorld desiredClass)) ''manila-default'' = Some created"
    using s r by (simp add: desiredClass_name)
  ultimately show ?thesis
    using h1 h2 example_parameters_differ d r k p by (simp add: desiredClass_name)
qed

subsection \<open>Reconciling every share type\<close>

text \<open>
  C3. Sync of a managed operator whose probe returns a list that is not empty reconciles
  every share type of the list, in order, whatever the outcome of each item: the world it
  leaves is the one in which each item has been reconciled in turn, with one lookup per
  share type and at least one write of a storage class per share type in the log. When
  some item failed, sync returns the aggregate of all the items' errors, in order, and
  stops there: the conditions are as they were and no update of the status was made.
  When none failed, sync goes on to \<open>setEnabled\<close> and returns its result.
\<close>

theorem sync_collects_item_errors:
  assumes "operatorState w = Inr Managed" and "shareTypes w = Inr sts" and "sts \<noteq> []"
  shows "case sync u c w of
           (r, c', w') \<Rightarrow>
             (let w2 = w\<lparr>calls := calls w @ [CallGetOperatorState, CallGetShareTypes]\<rparr>;
                  results = itemResults u w2 sts;
                  reconciled = itemsWorld u w2 sts
              in length results = length sts
               \<and> listerGets (newCalls w w') = map (\<lambda>st. StorageClassNamePrefix u @ ShareTypeName st) sts
               \<and> length sts \<le> length (storageWrites (newCalls w w'))
               \<and> (if itemErrors results = [] then
                    r = fst (setEnabled reconciled) \<and> w' = snd (setEnabled reconciled)
                    \<and> CallUpdateStatus \<in> set (newCalls w w')
                  else r = Some (Aggregate (itemErrors results))
                     \<and> w' = reconciled
                     \<and> conditions w' = conditions w
                     \<and> CallUpdateStatus \<notin> set (newCalls w w')))"
proof -
  let ?w2 = "w\<lparr>calls := calls w @ [CallGetOperatorState, CallGetShareTypes]\<rparr>"
  let ?c1 = "if \<not> controllersRunning c
             then c\<lparr>controllersRunning := True,
                    goroutines := startControllers (goroutines c) (csiControllers c)\<rparr>
             else c"
  obtain r3 w3 where s: "syncStorageClasses u ?w2 sts = (r3, w3)"
    by (cases "syncStorageClasses u ?w2 sts") auto
  have w3: "w3 = itemsWorld u ?w2 sts"
    by (rule syncStorageClasses_world [OF s])
  from syncStorageClasses_frame [OF s] obtain cs where f:
    "r3 = NewAggregate (itemErrors (itemResults u ?w2 sts))"
    "conditions w3 = conditions w"
    "calls w3 = calls w @ [CallGetOperatorState, CallGetShareTypes] @ cs"
    "listerGets cs = map (\<lambda>st. StorageClassNamePrefix u @ ShareTypeName st) sts"
    "CallUpdateStatus \<notin> set cs"
    by auto
  from itemsWorld_writes [of u ?w2 sts] w3 f(3) have wr: "length sts \<le> length (storageWrites cs)"
    by auto
  show ?thesis
  proof (cases "itemErrors (itemResults u ?w2 sts) = []")
    case True
    with f(1) have r3: "r3 = None" by (simp add: NewAggregate_def)
    obtain r4 w4 where e: "setEnabled w3 = (r4, w4)"
      by (cases "setEnabled w3") auto
    then have c4: "calls w4 = calls w3 @ [CallUpdateStatus]"
      by (auto simp: setEnabled_eq split: option.splits)
    have "sync u c w = (r4, ?c1, w4)"
      using assms s r3 e by (simp add: sync_probe Let_def)
    moreover have "r4 = fst (setEnabled (itemsWorld u ?w2 sts))" "w4 = snd (setEnabled (itemsWorld u ?w2 sts))"
      using e w3 by simp_all
    ultimately show ?thesis
      using True f c4 wr
      by (simp add: newCalls_def length_itemResults listerGets_append storageWrites_append Let_def)
  next
    case False
    with f(1) have r3: "r3 = Some (Aggregate (itemErrors (itemResults u ?w2 sts)))"
      by (simp add: NewAggregate_def)
    have "sync u c w = (r3, ?c1, w3)"
      using assms s r3 by (simp add: sync_probe Let_def)
    then show ?thesis
      using False f r3 wr w3 [symmetric]
      by (simp add: newCalls_def length_itemResults listerGets_append storageWrites_append Let_def)
  qed
qed

theorem sync_collects_item_errors_witness:
  "operatorState threeShareTypesWorld = Inr Managed
   \<and> shareTypes threeShareTypesWorld = Inr [shareType ''a'', shareType ''b'', shareType ''c'']
   \<and> itemResults exampleUtil
        (threeShareTypesWorld\<lparr>calls := [CallGetOperatorState, CallGetShareTypes]\<rparr>)
        [shareType ''a'', shareType ''b'', shareType ''c'']
       = [None, Some (ErrOther ''create failed''), None]
   \<and> fst (sync exampleUtil exampleController threeShareTypesWorld)
       = Some (Aggregate [ErrOther ''create failed''])
   \<and> calls (snd (snd (sync exampleUtil exampleController threeShareTypesWorld)))
       = [CallGetOperatorState, CallGetShareTypes,
          CallListerGet ''manila-a'', CallCreate (generateStorageClass exampleUtil (shareType ''a'')),
          CallListerGet ''manila-b'', CallCreate (generateStorageClass exampleUtil (shareType ''b'')),
          CallListerGet ''manila-c'', CallCreate (generateStorageClass exampleUtil (shareType ''c''))]
   \<and> api (snd (snd (sync exampleUtil exampleController threeShareTypesWorld))) ''manila-a''
       = Some (generateStorageClass exampleUtil (shareType ''a''))
   \<and> api (snd (snd (sync exampleUtil exampleController threeShareTypesWorld))) ''manila-b'' = None
   \<and> api (snd (snd (sync exampleUtil exampleController threeShareTypesWorld))) ''manila-c''
       = Some (generateStorageClass exampleUtil (shareType ''c''))
   \<and> conditions (snd (snd (sync exampleUtil exampleController threeShareTypesWorld))) = []"
proof -
  let ?w2 = "threeShareTypesWorld\<lparr>calls := [CallGetOperatorState, CallGetShareTypes]\<rparr>"
  let ?sts = "[shareType ''a'', shareType ''b'', shareType ''c'']"
  have m: "operatorState threeShareTypesWorld = Inr Managed"
    and s: "shareTypes threeShareTypesWorld = Inr ?sts"
    and c: "calls threeShareTypesWorld = []" "conditions threeShareTypesWorld = []"
    by (simp_all add: threeShareTypesWorld_def quietWorld_def)
  have i: "itemResults exampleUtil ?w2 ?sts = [None, Some (ErrOther ''create failed''), None]"
    by (simp add: threeShareTypesWorld_def quietWorld_def applyStorageClass_def Lister_Get_def
        ApplyStorageClass_def invoke_def generateStorageClass_def exampleUtil_def shareType_def)
  have k: "calls (itemsWorld exampleUtil ?w2 ?sts)
       = [CallGetOperatorState, CallGetShareTypes,
          CallListerGet ''manila-a'', CallCreate (generateStorageClass exampleUtil (shareType ''a'')),
          CallListerGet ''manila-b'', CallCreate (generateStorageClass exampleUtil (shareType ''b'')),
          CallListerGet ''manila-c'', CallCreate (generateStorageClass exampleUtil (shareType ''c''))]"
    by (simp add: threeShareTypesWorld_def quietWorld_def applyStorageClass_def Lister_Get_def
        ApplyStorageClass_def invoke_def generateStorageClass_def exampleUtil_def shareType_def)
  have a: "api (itemsWorld exampleUtil ?w2 ?sts) ''manila-a''
             = Some (generateStorageClass exampleUtil (shareType ''a''))"
    "api (itemsWorld exampleUtil ?w2 ?sts) ''manila-b'' = None"
    "api (itemsWorld exampleUtil ?w2 ?sts) ''manila-c''
             = Some (generateStorageClass exampleUtil (shareType ''c''))"
    by (simp_all add: threeShareTypesWorld_def quietWorld_def applyStorageClass_def Lister_Get_def
        ApplyStorageClass_def invoke_def generateStorageClass_def exampleUtil_def shareType_def)
  from sync_collects_item_errors [OF m s, of exampleUtil exampleController] i c
  have "fst (sync exampleUtil exampleController threeShareTypesWorld)
          = Some (Aggregate [ErrOther ''create failed''])
        \<and> snd (snd (sync exampleUtil exampleController threeShareTypesWorld))
          = itemsWorld exampleUtil ?w2 ?sts
        \<and> conditions (snd (snd (sync exampleUtil exampleController threeShareTypesWorld))) = []"
    by (cases "sync exampleUtil exampleController threeShareTypesWorld") (simp add: Let_def)
  then have r: "fst (sync exampleUtil exampleController threeShareTypesWorld)
          = Some (Aggregate [ErrOther ''create failed''])"
    and e: "snd (snd (sync exampleUtil exampleController threeShareTypesWorld))
          = itemsWorld exampleUtil ?w2 ?sts"
    and d: "conditions (snd (snd (sync exampleUtil exampleController threeShareTypesWorld))) = []"
    by blast+
  show ?thesis
    using m s i r k [folded e] a [folded e] d by (intro conjI)
qed

subsection \<open>The two conditions\<close>

text \<open>
  C4. Whatever the conditions were, a \<open>setEnabled\<close> that succeeds leaves the Available
  condition true and no Disabled condition, and a \<open>setDisabled\<close> that succeeds leaves the
  Disabled condition true, with reason \<^verbatim>\<open>NoManila\<close> and the message given, and no
  Available condition; so after either at most one of the two is true. Each is one update
  of the status, and one that fails leaves the conditions as they were.
\<close>

theorem condition_transitions_exclusive:
  "(case setEnabled w of
      (None, w') \<Rightarrow>
        FindOperatorCondition (conditions w') ''ManilaControllerAvailable'' = Some availableCondition
        \<and> IsOperatorConditionTrue (conditions w') ''ManilaControllerAvailable''
        \<and> FindOperatorCondition (conditions w') ''ManilaControllerDisabled'' = None
        \<and> conditionsExclusive (conditions w')
    | (Some e, w') \<Rightarrow> conditions w' = conditions w)
   \<and> (case setDisabled w msg of
      (None, w') \<Rightarrow>
        FindOperatorCondition (conditions w') ''ManilaControllerDisabled'' = Some (disabledCondition msg)
        \<and> IsOperatorConditionTrue (conditions w') ''ManilaControllerDisabled''
        \<and> FindOperatorCondition (conditions w') ''ManilaControllerAvailable'' = None
        \<and> conditionsExclusive (conditions w')
    | (Some e, w') \<Rightarrow> conditions w' = conditions w)
   \<and> newCalls w (snd (setEnabled w)) = [CallUpdateStatus]
   \<and> newCalls w (snd (setDisabled w msg)) = [CallUpdateStatus]"
  by (simp add: setEnabled_eq setDisabled_eq find_after_enable find_after_disable
      IsOperatorConditionTrue_def conditionsExclusive_def newCalls_def condition_status
      split: option.splits)

theorem condition_transitions_exclusive_witness:
  "conditions bothConditionsWorld = [disabledCondition ''old'', availableCondition]
   \<and> \<not> conditionsExclusive (conditions bothConditionsWorld)
   \<and> fst (setEnabled bothConditionsWorld) = None
   \<and> conditionsExclusive (conditions (snd (setEnabled bothConditionsWorld)))
   \<and> conditions (snd (setEnabled bothConditionsWorld)) = [availableCondition]
   \<and> fst (setDisabled bothConditionsWorld ''new'') = None
   \<and> conditionsExclusive (conditions (snd (setDisabled bothConditionsWorld ''new'')))
   \<and> conditions (snd (setDisabled bothConditionsWorld ''new'')) = [disabledCondition ''new'']"
  using condition_transitions_exclusive [of bothConditionsWorld "''new''"]
  by (simp add: setEnabled_eq setDisabled_eq bothConditionsWorld_def quietWorld_def
      conditionsExclusive_def IsOperatorConditionTrue_def FindOperatorCondition_def
      RemoveOperatorCondition_def availableCondition_def disabledCondition_def ConditionTrue_def)

subsection \<open>The probe\<close>

text \<open>
  C5, as amended. When the probe of a managed operator fails with
  \<^verbatim>\<open>ErrEndpointNotFound\<close>, sync makes one update of the status and returns what the
  update returns: nil, with the Disabled condition set (reason \<^verbatim>\<open>NoManila\<close>, message
  "This OpenStack does not provide Manila service") and the Available condition removed,
  when the update succeeds; the update's error, with the conditions as they were, when it
  fails. When the probe fails with any other error, sync returns that error unchanged and
  has made no call after the probe. The controller is unchanged in both cases.
\<close>

theorem sync_probe_failure:
  assumes "operatorState w = Inr Managed" and "shareTypes w = Inl e"
  shows "case sync u c w of
           (r, c', w') \<Rightarrow>
             c' = c \<and>
             (if e = ErrEndpointNotFound then
                newCalls w w' = [CallGetOperatorState, CallGetShareTypes, CallUpdateStatus]
                \<and> r = faults w (length (calls w) + 2)
                \<and> (case r of
                      None \<Rightarrow>
                        FindOperatorCondition (conditions w') ''ManilaControllerDisabled''
                          = Some (disabledCondition ''This OpenStack does not provide Manila service'')
                        \<and> FindOperatorCondition (conditions w') ''ManilaControllerAvailable'' = None
                    | Some x \<Rightarrow> conditions w' = conditions w)
              else
                r = Some e
                \<and> w' = w\<lparr>calls := calls w @ [CallGetOperatorState, CallGetShareTypes]\<rparr>)"
proof (cases "e = ErrEndpointNotFound")
  case True
  then show ?thesis
    using assms
    by (simp add: sync_probe setDisabled_eq find_after_disable newCalls_def split: option.splits)
next
  case False
  then show ?thesis
    using assms by (cases e) (simp_all add: sync_probe)
qed

theorem sync_probe_failure_witness:
  "operatorState noManilaWorld = Inr Managed \<and> shareTypes noManilaWorld = Inl ErrEndpointNotFound
   \<and> fst (sync exampleUtil exampleController noManilaWorld) = None
   \<and> conditions (snd (snd (sync exampleUtil exampleController noManilaWorld)))
       = [disabledCondition ''This OpenStack does not provide Manila service'']
   \<and> operatorState probeTimeoutWorld = Inr Managed
   \<and> shareTypes probeTimeoutWorld = Inl (ErrOther ''timeout'')
   \<and> sync exampleUtil exampleController probeTimeoutWorld
       = (Some (ErrOther ''timeout''), exampleController,
          probeTimeoutWorld\<lparr>calls := [CallGetOperatorState, CallGetShareTypes]\<rparr>)"
  using sync_probe_failure [where w = noManilaWorld and e = ErrEndpointNotFound and u = exampleUtil
      and c = exampleController]
    sync_probe_failure [where w = probeTimeoutWorld and e = "ErrOther ''timeout''" and u = exampleUtil
      and c = exampleController]
  by (simp add: sync_probe setDisabled_eq probeTimeoutWorld_def noManilaWorld_def quietWorld_def
      RemoveOperatorCondition_def availableCondition_def disabledCondition_def)

text \<open>
  C5 as the claim states it, that sync returns nil and the operator is Disabled whenever
  the probe fails with \<^verbatim>\<open>ErrEndpointNotFound\<close>, fails where the update of the status
  fails: sync returns the update's error and the conditions are as they were.
\<close>

theorem sync_no_manila_status_update_fails:
  "operatorState statusDownWorld = Inr Managed
   \<and> shareTypes statusDownWorld = Inl ErrEndpointNotFound
   \<and> fst (sync exampleUtil exampleController statusDownWorld) = Some (ErrOther ''status update failed'')
   \<and> conditions (snd (snd (sync exampleUtil exampleController statusDownWorld))) = [availableCondition]
   \<and> \<not> IsOperatorConditionTrue (conditions (snd (snd (sync exampleUtil exampleController statusDownWorld))))
         ''ManilaControllerDisabled''"
  by (simp add: sync_probe setDisabled_eq statusDownWorld_def noManilaWorld_def quietWorld_def
      IsOperatorConditionTrue_def FindOperatorCondition_def availableCondition_def)

text \<open>
  C6, as amended. When the probe of a managed operator returns an empty list, sync does
  what it does when the probe fails with \<^verbatim>\<open>ErrEndpointNotFound\<close>, with another message:
  the same result, the same calls (the two reads and one update of the status), the same
  storage classes at the API server, no controller started, and the conditions that differ
  in the message of the Disabled condition only. The result is that of the update of the
  status: nil, with the Disabled condition set (reason \<^verbatim>\<open>NoManila\<close>, message "Manila
  does not provide any share types") and the Available condition removed, when the update
  succeeds; the update's error, with the conditions as they were, when it fails.
\<close>

theorem sync_no_share_types:
  assumes "operatorState w = Inr Managed" and "shareTypes w = Inr []"
  shows "case (sync u c w, sync u c (w\<lparr>shareTypes := Inl ErrEndpointNotFound\<rparr>)) of
           ((r, c', w'), (r0, c0, w0)) \<Rightarrow>
             r = r0 \<and> r = faults w (length (calls w) + 2)
             \<and> c' = c \<and> c0 = c
             \<and> newCalls w w' = [CallGetOperatorState, CallGetShareTypes, CallUpdateStatus]
             \<and> calls w0 = calls w' \<and> api w' = api w \<and> api w0 = api w
             \<and> (case r of
                   None \<Rightarrow>
                     conditions w' =
                       RemoveOperatorCondition
                         (SetOperatorCondition (conditions w)
                            (disabledCondition ''Manila does not provide any share types''))
                         ''ManilaControllerAvailable''
                     \<and> conditions w0 =
                       RemoveOperatorCondition
                         (SetOperatorCondition (conditions w)
                            (disabledCondition ''This OpenStack does not provide Manila service''))
                         ''ManilaControllerAvailable''
                     \<and> FindOperatorCondition (conditions w') ''ManilaControllerDisabled''
                         = Some (disabledCondition ''Manila does not provide any share types'')
                     \<and> FindOperatorCondition (conditions w') ''ManilaControllerAvailable'' = None
                 | Some x \<Rightarrow> conditions w' = conditions w \<and> conditions w0 = conditions w)"
  using assms
  by (simp add: sync_probe setDisabled_eq find_after_disable newCalls_def split: option.splits)

theorem sync_no_share_types_witness:
  "operatorState noShareTypesWorld = Inr Managed \<and> shareTypes noShareTypesWorld = Inr []
   \<and> fst (sync exampleUtil exampleController noShareTypesWorld) = None
   \<and> conditions (snd (snd (sync exampleUtil exampleController noShareTypesWorld)))
       = [disabledCondition ''Manila does not provide any share types'']
   \<and> conditions (snd (snd (sync exampleUtil exampleController
                              (noShareTypesWorld\<lparr>shareTypes := Inl ErrEndpointNotFound\<rparr>))))
       = [disabledCondition ''This OpenStack does not provide Manila service'']"
  using sync_no_share_types [where w = noShareTypesWorld and u = exampleUtil and c = exampleController]
  by (simp add: sync_probe setDisabled_eq noShareTypesWorld_def quietWorld_def
      RemoveOperatorCondition_def availableCondition_def disabledCondition_def)

text \<open>
  C6 as the claim states it, that sync returns nil with the Disabled condition set
  whenever the probe returns an empty list, fails where the update of the status fails.
\<close>

theorem sync_no_share_types_status_update_fails:
  "operatorState noShareTypesStatusDownWorld = Inr Managed
   \<and> shareTypes noShareTypesStatusDownWorld = Inr []
   \<and> fst (sync exampleUtil exampleController noShareTypesStatusDownWorld)
       = Some (ErrOther ''status update failed'')
   \<and> conditions (snd (snd (sync exampleUtil exampleController noShareTypesStatusDownWorld)))
       = [availableCondition]
   \<and> \<not> IsOperatorConditionTrue
         (conditions (snd (snd (sync exampleUtil exampleController noShareTypesStatusDownWorld))))
         ''ManilaControllerDisabled''"
  by (simp add: sync_probe setDisabled_eq noShareTypesStatusDownWorld_def noShareTypesWorld_def
      quietWorld_def IsOperatorConditionTrue_def FindOperatorCondition_def availableCondition_def)

subsection \<open>Starting the CSI driver controllers\<close>

text \<open>
  C7. Over any number of consecutive syncs of a managed operator that all see a list of
  share types that is not empty, whatever else the world is at each of them, the
  controllers of \<open>csiControllers\<close> are started once each, with one worker, by the first
  sync, unless the flag was set before, and then none is started; after one sync or more
  the flag is set. Whatever the world, a single sync either leaves the controller as it
  was or, and only when the flag was not set, sets the flag and starts every controller
  once: the flag is never reset.
\<close>

theorem controllers_started_once:
  assumes "\<forall>w \<in> set ws. operatorState w = Inr Managed \<and> (\<exists>sts. shareTypes w = Inr sts \<and> sts \<noteq> [])"
  shows "controllersRunning (syncs u c ws) = (controllersRunning c \<or> ws \<noteq> [])
       \<and> goroutines (syncs u c ws) =
           (if controllersRunning c \<or> ws = [] then goroutines c
            else goroutines c @ map (\<lambda>ctrl. (ctrl, 1)) (csiControllers c))
       \<and> csiControllers (syncs u c ws) = csiControllers c
       \<and> (\<forall>w. fst (snd (sync u c w)) = c
              \<or> (\<not> controllersRunning c
                 \<and> fst (snd (sync u c w)) =
                     c\<lparr>controllersRunning := True,
                       goroutines := goroutines c @ map (\<lambda>ctrl. (ctrl, 1)) (csiControllers c)\<rparr>))"
  using syncs_controller [OF assms, of u c] sync_controller_any [of u c] by auto

theorem controllers_started_once_witness:
  "operatorState oneShareTypeWorld = Inr Managed
   \<and> shareTypes oneShareTypeWorld = Inr [shareType ''default'']
   \<and> controllersRunning (syncs exampleUtil exampleController (replicate 100 oneShareTypeWorld))
   \<and> goroutines (syncs exampleUtil exampleController (replicate 100 oneShareTypeWorld))
       = [(''manila'', 1), (''nfs'', 1)]
   \<and> goroutines (syncs exampleUtil exampleController [oneShareTypeWorld])
       = [(''manila'', 1), (''nfs'', 1)]"
  using controllers_started_once
          [where ws = "replicate 100 oneShareTypeWorld" and u = exampleUtil and c = exampleController]
        controllers_started_once
          [where ws = "[oneShareTypeWorld]" and u = exampleUtil and c = exampleController]
  by (simp add: oneShareTypeWorld_def quietWorld_def exampleController_def)

subsection \<open>An operator that is not managed\<close>

text \<open>
  C8. When the management state is read without error and is not \<^verbatim>\<open>Managed\<close>, sync
  returns nil and has done nothing but that read: the controller (its running flag, its
  goroutines) is unchanged, and so is the world but for the one logged call. No probe, no
  write of a storage class and no update of the conditions was made.
\<close>

theorem sync_not_managed:
  assumes "operatorState w = Inr managementState" and "managementState \<noteq> Managed"
  shows "sync u c w = (None, c, w\<lparr>calls := calls w @ [CallGetOperatorState]\<rparr>)"
  using assms by (simp add: sync_def GetOperatorState_def)

theorem sync_not_managed_witness:
  "operatorState unmanagedWorld = Inr ''Unmanaged'' \<and> ''Unmanaged'' \<noteq> Managed
   \<and> sync exampleUtil exampleController unmanagedWorld
       = (None, exampleController, unmanagedWorld\<lparr>calls := [CallGetOperatorState]\<rparr>)"
  using sync_not_managed [of unmanagedWorld "''Unmanaged''" exampleUtil exampleController]
  by (simp add: unmanagedWorld_def quietWorld_def Managed_def)

end
